theory Spec2Isabelle
  imports Complex_Main "HOL-Library.Signed_Division"
begin

section \<open>Failures of the driver\<close>

text \<open>
  The ways in which the modelled parts of the driver stop early.
  \<^item> \<open>OutOfRange\<close>: an array is read past its end. C++ leaves this undefined; the
    model stops there, so that no theorem rests on an unspecified value.
  \<^item> \<open>DivideByZero\<close>: an \<open>int\<close> is divided by zero (undefined in C++ as well).
  \<^item> \<open>VerifyFailed\<close>: the condition of an \<open>MFEM_VERIFY\<close> is false and the run aborts.
  \<^item> \<open>Exit c\<close>: \<open>main\<close> returns the code \<open>c\<close> before the solve.
\<close>

datatype error = OutOfRange | DivideByZero | VerifyFailed | Exit int

section \<open>Global interface index (examples/ex3p\_dd.cpp, step 5.3)\<close>

text \<open>
  The driver identifies an interface between two subdomains by one C++ \<open>int\<close>.
  In the driver \<open>numSubdomains\<close> is the product of the constant array
  \<open>nxyzSubdomains = {1, 1, 2}\<close>, so every index computed here is far inside
  the range of a 32-bit \<open>int\<close>; the indices are modelled as \<open>int\<close>, and the
  lemma \<open>globalIndex_fits_int32\<close> below bounds the encoded value for every
  subdomain count up to 46340. C++ \<open>/\<close> on \<open>int\<close> truncates towards zero,
  which is \<open>sdiv\<close>, not HOL's flooring \<open>div\<close>.
\<close>

text \<open>
  Modelled from the spec: \<open>SubdomainInterface::SetGlobalIndex\<close> is declared in
  ddmesh.hpp, which is not among the sources. The spec (section 3) gives the global
  index as \<open>g = sd0*numSubdomains + sd1\<close>; the comment at lines 561 and 562 of the
  driver repeats it as \<open>globalIndex = (numSubdomains * sd0) + sd1\<close>.
\<close>

definition encodeGlobalIndex :: "int \<Rightarrow> int \<Rightarrow> int \<Rightarrow> int" where
  "encodeGlobalIndex numSubdomains s0 s1 = (numSubdomains * s0) + s1"

text \<open>
  Lines 561 and 562 of the driver:
  \<^verbatim>\<open>
  const int sd0 = interfaceGI[i] / numSubdomains;
  const int sd1 = interfaceGI[i] - (numSubdomains * sd0);
  \<close>
\<close>

definition decode_sd0 :: "int \<Rightarrow> int \<Rightarrow> int" where
  "decode_sd0 numSubdomains g = g sdiv numSubdomains"

definition decode_sd1 :: "int \<Rightarrow> int \<Rightarrow> int" where
  "decode_sd1 numSubdomains g = g - (numSubdomains * decode_sd0 numSubdomains g)"

definition decodeGlobalIndex :: "int \<Rightarrow> int \<Rightarrow> int \<times> int" where
  "decodeGlobalIndex numSubdomains g = (decode_sd0 numSubdomains g, decode_sd1 numSubdomains g)"

section \<open>Serial mesh and the partitioning step (examples/ex3p\_dd.cpp, step 4.5)\<close>

text \<open>
  Modelled from the spec: class \<open>Mesh\<close> (mesh/mesh.hpp) is not among the sources.
  The partitioning step uses three of its members: \<open>GetNE()\<close>, the number of
  elements; \<open>SetAttribute(i, attr)\<close>, which stores the attribute of element \<open>i\<close>;
  and \<open>CartesianPartitioning\<close>, whose result is the element-to-subdomain array of
  section 6 of the spec and is a parameter of the model. A mesh is therefore the list
  of its elements' attributes.
\<close>

record Mesh =
  attributes :: "int list"

definition GetNE :: "Mesh \<Rightarrow> nat" where
  "GetNE mesh = length (attributes mesh)"

definition SetAttribute :: "Mesh \<Rightarrow> nat \<Rightarrow> int \<Rightarrow> Mesh" where
  "SetAttribute mesh i attr = mesh\<lparr>attributes := (attributes mesh)[i := attr]\<rparr>"

definition GetAttribute :: "Mesh \<Rightarrow> nat \<Rightarrow> int" where
  "GetAttribute mesh i = attributes mesh ! i"

text \<open>
  Lines 429 to 432 of the driver:
  \<^verbatim>\<open>
  for (int i=0; i<mesh->GetNE(); ++i)
    {
      mesh->SetAttribute(i, subdomain[i]+1);
    }
  \<close>
  The loop state is the mesh together with the indices that have been passed to
  \<open>SetAttribute\<close> so far, in call order: the second component records the effect
  "element \<open>i\<close> was written" and nothing else.
\<close>

function partition_loop :: "int list \<Rightarrow> nat \<Rightarrow> Mesh \<times> nat list \<Rightarrow> error + (Mesh \<times> nat list)" where
  "partition_loop subdomain i (mesh, calls) =
     (if i < GetNE mesh then
        (if i < length subdomain
         then partition_loop subdomain (Suc i)
                (SetAttribute mesh i (subdomain ! i + 1), calls @ [i])
         else Inl OutOfRange)
      else Inr (mesh, calls))"
  by pat_completeness auto
termination
  by (relation "measure (\<lambda>(subdomain, i, mesh, calls). GetNE mesh - i)")
     (auto simp: GetNE_def SetAttribute_def)

declare partition_loop.simps [simp del]

definition partition_step :: "int list \<Rightarrow> Mesh \<Rightarrow> error + (Mesh \<times> nat list)" where
  "partition_step subdomain mesh = partition_loop subdomain 0 (mesh, [])"

text \<open>
  The elements of subdomain \<open>s\<close> are the elements whose attribute is \<open>s + 1\<close>: this is
  how the tag is stored by the loop above.
\<close>

definition subdomain_elements :: "Mesh \<Rightarrow> int \<Rightarrow> nat list" where
  "subdomain_elements mesh s = filter (\<lambda>i. GetAttribute mesh i = s + 1) [0..<GetNE mesh]"

section \<open>Subdomain interfaces and the meshes built from them\<close>

text \<open>
  Modelled from the spec: class \<open>SubdomainInterface\<close> (ddmesh.hpp) is not among the
  sources. Section 3 of the spec gives an interface the ordered pair \<open>(sd0, sd1)\<close>,
  one global index, and the sets of shared faces and incident vertices. The driver
  uses the constructor \<open>SubdomainInterface(sd0, sd1)\<close>, \<open>SetGlobalIndex(numSubdomains)\<close>,
  \<open>GetGlobalIndex()\<close> and the member \<open>faces\<close>, a \<open>std::set<int>\<close>. An object made by
  the constructor alone holds no face and no vertex; the global index it holds before
  \<open>SetGlobalIndex\<close> is never read by the driver and is modelled as \<open>-1\<close>.
\<close>

record SubdomainInterface =
  sd0 :: int
  sd1 :: int
  globalIndex :: int
  faces :: "int list"
  vertices :: "int list"

definition new_SubdomainInterface :: "int \<Rightarrow> int \<Rightarrow> SubdomainInterface" where
  "new_SubdomainInterface s0 s1 =
     \<lparr>sd0 = s0, sd1 = s1, globalIndex = - 1, faces = [], vertices = []\<rparr>"

definition SetGlobalIndex :: "SubdomainInterface \<Rightarrow> int \<Rightarrow> SubdomainInterface" where
  "SetGlobalIndex ifc numSubdomains =
     ifc\<lparr>globalIndex := encodeGlobalIndex numSubdomains (sd0 ifc) (sd1 ifc)\<rparr>"

definition GetGlobalIndex :: "SubdomainInterface \<Rightarrow> int" where
  "GetGlobalIndex ifc = globalIndex ifc"

text \<open>
  Modelled from the spec: class \<open>ParMesh\<close> (mesh/pmesh.hpp) is not among the sources.
  Of a distributed mesh built for one subdomain or one interface, the model keeps the
  part held by the current process: the local elements (for an interface mesh, the
  faces), each named by its index in the mesh it was taken from. A pointer to a mesh
  is an \<open>option\<close>, with \<open>None\<close> for \<open>NULL\<close>.
\<close>

record ParMesh =
  local_elements :: "int list"

definition ParMesh_GetNE :: "ParMesh \<Rightarrow> nat" where
  "ParMesh_GetNE pm = length (local_elements pm)"

text \<open>
  Modelled from the spec: \<open>SubdomainParMeshGenerator::CreateParallelInterfaceMesh\<close>
  (ddmesh.hpp) is not among the sources. Section 4.3 of the spec: for each interface,
  an independent distributed mesh of the faces shared between its two subdomains;
  an empty interface must still produce a well-formed zero-face mesh object rather
  than failing.
\<close>

definition CreateParallelInterfaceMesh :: "SubdomainInterface \<Rightarrow> ParMesh option" where
  "CreateParallelInterfaceMesh ifc = Some \<lparr>local_elements = faces ifc\<rparr>"

text \<open>
  Lines 561 to 564 of the driver, the object built where the process holds no piece
  of the interface:
  \<^verbatim>\<open>
  const int sd0 = interfaceGI[i] / numSubdomains;
  const int sd1 = interfaceGI[i] - (numSubdomains * sd0);
  SubdomainInterface emptyInterface(sd0, sd1);
  emptyInterface.SetGlobalIndex(numSubdomains);
  \<close>
\<close>

definition emptyInterface :: "int \<Rightarrow> int \<Rightarrow> SubdomainInterface" where
  "emptyInterface numSubdomains g =
     SetGlobalIndex
       (new_SubdomainInterface (decode_sd0 numSubdomains g) (decode_sd1 numSubdomains g))
       numSubdomains"

text \<open>
  The body of the loop at lines 550 to 567, for one index \<open>i\<close>. The mesh builder is
  the parameter \<open>create\<close>. \<open>MFEM_VERIFY\<close> (general/error.hpp, not among the sources)
  aborts the run when its condition is false.
  \<^verbatim>\<open>
  const int iloc = interfaceGlobalToLocalMap[i];
  if (iloc >= 0)
    {
      MFEM_VERIFY(interfaceGI[i] == interfaces[iloc].GetGlobalIndex(), "");
      pmeshInterfaces[i] = sdMeshGen.CreateParallelInterfaceMesh(interfaces[iloc]);
    }
  else
    { ... pmeshInterfaces[i] = sdMeshGen.CreateParallelInterfaceMesh(emptyInterface); }
  \<close>
\<close>

definition interface_mesh_at ::
  "(SubdomainInterface \<Rightarrow> 'm) \<Rightarrow> int \<Rightarrow> SubdomainInterface list \<Rightarrow> int list \<Rightarrow> int list
     \<Rightarrow> nat \<Rightarrow> error + 'm" where
  "interface_mesh_at create numSubdomains interfaces interfaceGlobalToLocalMap interfaceGI i =
     (if i < length interfaceGlobalToLocalMap then
        (let iloc = interfaceGlobalToLocalMap ! i in
         if iloc \<ge> 0 then
           (if i < length interfaceGI \<and> nat iloc < length interfaces then
              (if interfaceGI ! i = GetGlobalIndex (interfaces ! nat iloc)
               then Inr (create (interfaces ! nat iloc))
               else Inl VerifyFailed)
            else Inl OutOfRange)
         else
           (if i < length interfaceGI then
              (if numSubdomains = 0 then Inl DivideByZero
               else Inr (create (emptyInterface numSubdomains (interfaceGI ! i))))
            else Inl OutOfRange))
      else Inl OutOfRange)"

text \<open>
  The loop itself, \<open>for (int i=0; i<numInterfaces; ++i)\<close>: the bodies run in index
  order and the first failure ends the run; otherwise \<open>pmeshInterfaces\<close> holds one
  entry per index.
\<close>

fun run_indices :: "(nat \<Rightarrow> error + 'm) \<Rightarrow> nat list \<Rightarrow> error + 'm list" where
  "run_indices body [] = Inr []"
| "run_indices body (i # rest) =
     (case body i of
        Inl e \<Rightarrow> Inl e
      | Inr m \<Rightarrow> (case run_indices body rest of
                    Inl e \<Rightarrow> Inl e
                  | Inr ms \<Rightarrow> Inr (m # ms)))"

definition CreateInterfaceMeshes ::
  "(SubdomainInterface \<Rightarrow> 'm) \<Rightarrow> int \<Rightarrow> int \<Rightarrow> SubdomainInterface list \<Rightarrow> int list \<Rightarrow> int list
     \<Rightarrow> error + 'm list" where
  "CreateInterfaceMeshes create numSubdomains numInterfaces interfaces
       interfaceGlobalToLocalMap interfaceGI =
     run_indices
       (interface_mesh_at create numSubdomains interfaces interfaceGlobalToLocalMap interfaceGI)
       [0..<nat numInterfaces]"

section \<open>Subdomain meshes (examples/ex3p\_dd.cpp, step 5.2)\<close>

text \<open>
  Modelled from the spec: \<open>SubdomainParMeshGenerator::CreateParallelSubdomainMeshes\<close>
  (ddmesh.hpp) is not among the sources. Section 4.2 of the spec: for each subdomain
  id, an independent distributed mesh consisting exactly of the elements tagged with
  that id; a process that owns zero elements of a subdomain must still produce a
  syntactically valid, zero-size local mesh, not a null object. The argument is the
  local part of the parallel mesh, whose elements carry the subdomain tag as their
  attribute.
\<close>

definition CreateParallelSubdomainMeshes :: "int \<Rightarrow> Mesh \<Rightarrow> ParMesh option list option" where
  "CreateParallelSubdomainMeshes numSubdomains pmesh =
     Some (map (\<lambda>s. Some \<lparr>local_elements = map int (subdomain_elements pmesh (int s))\<rparr>)
             [0..<nat numSubdomains])"

text \<open>
  Lines 541 to 545 of the driver:
  \<^verbatim>\<open>
  SubdomainParMeshGenerator sdMeshGen(numSubdomains, pmesh);
  ParMesh **pmeshSD = sdMeshGen.CreateParallelSubdomainMeshes();
  if (pmeshSD == NULL)
    return 2;
  \<close>
\<close>

definition create_subdomain_meshes_step :: "int \<Rightarrow> Mesh \<Rightarrow> error + ParMesh option list" where
  "create_subdomain_meshes_step numSubdomains pmesh =
     (case CreateParallelSubdomainMeshes numSubdomains pmesh of
        None \<Rightarrow> Inl (Exit 2)
      | Some pmeshSD \<Rightarrow> Inr pmeshSD)"

section \<open>The interface solve (examples/ex3p\_dd.cpp, lines 904 to 994)\<close>

text \<open>
  A \<open>Vector\<close> holds C++ \<open>double\<close>s. The driver itself only sizes vectors, fills them
  with \<open>0.0\<close> and hands them on, so the entries are modelled as \<open>real\<close> and no
  floating-point operation is modelled.
\<close>

type_synonym Vector = "real list"

text \<open>
  Modelled from the spec: class \<open>DDMInterfaceOperator\<close> (ddoper.hpp) is not among
  the sources. It is taken as the capability of section 6 of the spec, a width and
  an application, together with the two maps of section 4.5:
  \<open>GetReducedSource\<close> (from the real and imaginary parts of the global right-hand
  side to the reduced one) and \<open>RecoverDomainSolution\<close> (from the interface solution,
  the prior global guess and the current content of the output vector to the global
  solution). Their bodies are parameters.
\<close>

record DDMInterfaceOperator =
  Width :: nat
  Mult :: "Vector \<Rightarrow> Vector"
  GetReducedSource :: "Vector \<Rightarrow> Vector \<Rightarrow> Vector"
  RecoverDomainSolution :: "Vector \<Rightarrow> Vector \<Rightarrow> Vector \<Rightarrow> Vector"

text \<open>
  Modelled from the spec: class \<open>GMRESSolver\<close> (linalg/solvers.hpp) is not among the
  sources. Section 6 of the spec gives the Krylov driver the contract
  \<open>solve(operator, rhs, tol, maxIter, restartDim) -> (solution, converged, iterations)\<close>;
  the driver passes the initial guess in the vector that receives the solution.
\<close>

record KrylovResult =
  solution :: Vector
  converged :: bool
  iterations :: nat

type_synonym KrylovDriver =
  "(Vector \<Rightarrow> Vector) \<Rightarrow> real \<Rightarrow> nat \<Rightarrow> nat \<Rightarrow> Vector \<Rightarrow> Vector \<Rightarrow> KrylovResult"

text \<open>
  The block guarded by \<open>solveDD\<close>, without its printing and timing:
  \<^verbatim>\<open>
  Vector Bdd(ddi.Width());
  Vector xdd(ddi.Width());
  Vector B_Im(B.Size());
  B_Im = 0.0;
  ddi.GetReducedSource(fespace, B, B_Im, Bdd);
  GMRESSolver *gmres = new GMRESSolver(fespace->GetComm());
  gmres->SetOperator(ddi);
  gmres->SetRelTol(1e-8);
  gmres->SetMaxIter(100);
  gmres->SetKDim(100);
  xdd = 0.0;
  gmres->Mult(Bdd, xdd);
  Vector Xfem(X.Size());
  Xfem = X;
  X = 0.0;
  ddi.RecoverDomainSolution(fespace, xdd, Xfem, X);
  \<close>
  The result is the vector \<open>X\<close> after the block; the block has no \<open>return\<close> and no
  \<open>MFEM_VERIFY\<close> of its own, so the model has no \<open>Inl\<close> branch.
\<close>

definition solveDD :: "KrylovDriver \<Rightarrow> DDMInterfaceOperator \<Rightarrow> Vector \<Rightarrow> Vector \<Rightarrow> error + Vector" where
  "solveDD gmres ddi B X =
     (let B_Im = replicate (length B) 0;
          Bdd = GetReducedSource ddi B B_Im;
          xdd0 = replicate (Width ddi) 0;
          res = gmres (Mult ddi) (1 / 10 ^ 8) 100 100 Bdd xdd0;
          xdd = solution res;
          Xfem = X;
          X0 = replicate (length X) 0
      in Inr (RecoverDomainSolution ddi xdd Xfem X0))"

section \<open>Element markers (miniapps/shifted\_methods/neumann.cpp, lines 158 to 188)\<close>

text \<open>
  The level-set values are C++ \<open>double\<close>s and the code only compares them with zero.
  A \<open>double\<close> is a finite real number, an infinity or a NaN; \<open>le_zero\<close> is the
  comparison \<open>val <= 0.\<close>, which is false for a NaN.
\<close>

datatype double = Finite real | PosInf | NegInf | NaN

fun le_zero :: "double \<Rightarrow> bool" where
  "le_zero (Finite r) = (r \<le> 0)"
| "le_zero PosInf = False"
| "le_zero NegInf = True"
| "le_zero NaN = False"

text \<open>
  Lines 171 to 176, with \<open>vals\<close> the values at the quadrature points of the element:
  \<open>GetValues(i, ir, vals)\<close> gives \<open>vals\<close> one entry per point of \<open>ir\<close>, so
  \<open>ir.GetNPoints()\<close> is the length of \<open>vals\<close>.
  \<^verbatim>\<open>
  int count = 0;
  for (int j = 0; j < ir.GetNPoints(); j++)
  {
     double val = vals(j);
     if (val <= 0.) { count++; }
  }
  \<close>
\<close>

primrec count_loop :: "double list \<Rightarrow> int \<Rightarrow> int" where
  "count_loop [] count = count"
| "count_loop (val # vals) count = count_loop vals (if le_zero val then count + 1 else count)"

text \<open>
  The body of the loop over the local elements, lines 164 to 187. The state is the
  array \<open>elem_marker\<close> and the mesh; \<open>GetValues i\<close> stands for the values that
  \<open>level_set_val.GetValues(i, ir, vals)\<close> stores in \<open>vals\<close>.
  \<^verbatim>\<open>
  pmesh.SetAttribute(i, 1);
  ...
  if (count == ir.GetNPoints()) // completely outside
  {
     elem_marker[i] = 1;
     pmesh.SetAttribute(i, 2);
  }
  else if (count > 0) // partially outside
  {
     elem_marker[i] = 2;
     int attr = trimin ? 2 : 1;
     pmesh.SetAttribute(i, attr);
  }
  \<close>
\<close>

definition mark_element ::
  "bool \<Rightarrow> (nat \<Rightarrow> double list) \<Rightarrow> nat \<Rightarrow> int list \<times> Mesh \<Rightarrow> int list \<times> Mesh" where
  "mark_element trimin GetValues i st =
     (let elem_marker = fst st;
          vals = GetValues i;
          GetNPoints = int (length vals);
          pmesh = SetAttribute (snd st) i 1;
          count = count_loop vals 0
      in if count = GetNPoints then (elem_marker[i := 1], SetAttribute pmesh i 2)
         else if count > 0 then
           (elem_marker[i := 2], SetAttribute pmesh i (if trimin then 2 else 1))
         else (elem_marker, pmesh))"

function marker_loop ::
  "bool \<Rightarrow> (nat \<Rightarrow> double list) \<Rightarrow> nat \<Rightarrow> int list \<times> Mesh \<Rightarrow> int list \<times> Mesh" where
  "marker_loop trimin GetValues i st =
     (if i < GetNE (snd st)
      then marker_loop trimin GetValues (Suc i) (mark_element trimin GetValues i st)
      else st)"
  by pat_completeness auto
termination
  by (relation "measure (\<lambda>(trimin, GetValues, i, st). GetNE (snd st) - i)")
     (auto simp: GetNE_def SetAttribute_def mark_element_def Let_def)

declare marker_loop.simps [simp del]

text \<open>
  Lines 158 to 162: \<open>elem_marker\<close> has one entry per local element and one per shared
  face, all set to \<open>0\<close>, before the loop over \<open>i = 0, ..., GetNE() - 1\<close>. Every index
  the loop writes is below \<open>GetNE()\<close>, hence inside the array.
  \<^verbatim>\<open>
  Array<int> elem_marker(pmesh.GetNE()+pmesh.GetNSharedFaces());
  elem_marker = 0;
  \<close>
\<close>

definition mark_local_elements ::
  "bool \<Rightarrow> (nat \<Rightarrow> double list) \<Rightarrow> nat \<Rightarrow> Mesh \<Rightarrow> int list \<times> Mesh" where
  "mark_local_elements trimin GetValues GetNSharedFaces pmesh =
     marker_loop trimin GetValues 0 (replicate (GetNE pmesh + GetNSharedFaces) 0, pmesh)"

text \<open>
  The classification in the words of the comment at lines 154 to 157 and of the
  branches' own comments: \<open>1\<close> when the value at every quadrature point is \<open><= 0\<close>
  (completely outside), \<open>2\<close> when the value at some point but not at every point is
  \<open><= 0\<close> (partially outside), \<open>0\<close> otherwise (completely inside). It is compared
  with the result of the loop above.
\<close>

definition marker_spec :: "double list \<Rightarrow> int" where
  "marker_spec vals =
     (if list_all le_zero vals then 1
      else if list_ex le_zero vals then 2
      else 0)"

section \<open>Properties of the global interface index\<close>

lemma sdiv_nonneg_eq_div:
  fixes g n :: int
  assumes "0 \<le> g" and "0 < n"
  shows "g sdiv n = g div n"
proof -
  have "sgn g * sgn n * (\<bar>g\<bar> div \<bar>n\<bar>) = g div n"
  proof (cases "g = 0")
    case True
    then show ?thesis by simp
  next
    case False
    with assms have "0 < g" by simp
    with assms show ?thesis by simp
  qed
  then show ?thesis by (simp add: signed_divide_int_def)
qed

lemma decode_sd0_encode:
  assumes "0 \<le> s0" and "0 \<le> s1" and "s1 < n"
  shows "decode_sd0 n (encodeGlobalIndex n s0 s1) = s0"
proof -
  from assms have n: "0 < n" by simp
  from assms n have g: "0 \<le> n * s0 + s1" by simp
  have "(n * s0 + s1) div n = s0"
    using assms n by (simp add: div_pos_pos_trivial)
  with g n show ?thesis
    by (simp add: decode_sd0_def encodeGlobalIndex_def sdiv_nonneg_eq_div)
qed

lemma decode_sd1_encode:
  assumes "0 \<le> s0" and "0 \<le> s1" and "s1 < n"
  shows "decode_sd1 n (encodeGlobalIndex n s0 s1) = s1"
  using decode_sd0_encode [OF assms] by (simp add: decode_sd1_def encodeGlobalIndex_def)

lemma globalIndex_fits_int32:
  assumes "0 \<le> s0" and "s0 < s1" and "s1 < n" and "n \<le> 46340"
  shows "0 \<le> encodeGlobalIndex n s0 s1 \<and> encodeGlobalIndex n s0 s1 < 2 ^ 31"
proof -
  from assms have n: "0 < n" by simp
  from assms have "s0 \<le> n - 2" by simp
  with n have a: "n * s0 \<le> n * (n - 2)" by (simp add: mult_left_mono)
  from assms n have "n * (n - 2) \<le> 46340 * (46340 - 2)"
    by (intro mult_mono) simp_all
  then have b: "n * (n - 2) \<le> 2147302920" by simp
  from a b assms have "n * s0 + s1 < 2147483648" by linarith
  moreover from assms n have "0 \<le> n * s0 + s1" by simp
  ultimately show ?thesis by (simp add: encodeGlobalIndex_def)
qed

text \<open>
  C1. For every subdomain pair \<open>(sd0, sd1)\<close> with \<open>0 \<le> sd0 < sd1 < numSubdomains\<close>,
  encoding the pair as \<open>g = sd0*numSubdomains + sd1\<close> and decoding it as the driver
  does, \<open>sd0 = g / numSubdomains\<close> (C++ integer division) and
  \<open>sd1 = g - numSubdomains*sd0\<close>, gives back exactly the pair \<open>(sd0, sd1)\<close>.
\<close>

theorem decode_encode_roundtrip:
  assumes "0 \<le> s0" and "s0 < s1" and "s1 < numSubdomains"
  shows "decodeGlobalIndex numSubdomains (s0 * numSubdomains + s1) = (s0, s1)
    \<and> s0 * numSubdomains + s1 = encodeGlobalIndex numSubdomains s0 s1"
proof -
  have e: "s0 * numSubdomains + s1 = encodeGlobalIndex numSubdomains s0 s1"
    by (simp add: encodeGlobalIndex_def mult.commute)
  from assms have "decode_sd0 numSubdomains (encodeGlobalIndex numSubdomains s0 s1) = s0"
    by (intro decode_sd0_encode) simp_all
  then have "decodeGlobalIndex numSubdomains (encodeGlobalIndex numSubdomains s0 s1) = (s0, s1)"
    by (simp add: decodeGlobalIndex_def decode_sd1_def encodeGlobalIndex_def)
  with e show ?thesis by simp
qed

theorem decode_encode_roundtrip_witness:
  "(0::int) \<le> 0 \<and> (0::int) < 1 \<and> (1::int) < 2
    \<and> decodeGlobalIndex 2 (0 * 2 + 1) = (0, 1)
    \<and> decodeGlobalIndex 5 (2 * 5 + 4) = (2, 4)"
  using decode_encode_roundtrip [of 0 1 2] decode_encode_roundtrip [of 2 4 5] by simp

section \<open>Properties of the partitioning step\<close>

lemma GetNE_SetAttribute: "GetNE (SetAttribute mesh i a) = GetNE mesh"
  by (simp add: GetNE_def SetAttribute_def)

lemma partition_loop_result:
  "i \<le> GetNE mesh \<Longrightarrow> length subdomain = GetNE mesh \<Longrightarrow>
   partition_loop subdomain i (mesh, calls) =
     Inr (mesh\<lparr>attributes := take i (attributes mesh) @ map (\<lambda>s. s + 1) (drop i subdomain)\<rparr>,
          calls @ [i..<GetNE mesh])"
proof (induction subdomain i "(mesh, calls)" arbitrary: mesh calls rule: partition_loop.induct)
  case (1 subdomain i mesh calls)
  show ?case
  proof (cases "i < GetNE mesh")
    case True
    with "1.prems" have il: "i < length subdomain" by simp
    let ?m = "SetAttribute mesh i (subdomain ! i + 1)"
    have ih: "partition_loop subdomain (Suc i) (?m, calls @ [i]) =
      Inr (?m\<lparr>attributes := take (Suc i) (attributes ?m) @ map (\<lambda>s. s + 1) (drop (Suc i) subdomain)\<rparr>,
          (calls @ [i]) @ [Suc i..<GetNE ?m])"
      using True il "1.prems" by (intro "1.hyps") (simp_all add: GetNE_SetAttribute)
    have t: "take (Suc i) (attributes ?m) = take i (attributes mesh) @ [subdomain ! i + 1]"
      using True by (simp add: SetAttribute_def GetNE_def take_Suc_conv_app_nth)
    have d: "drop i subdomain = subdomain ! i # drop (Suc i) subdomain"
      using il by (simp add: Cons_nth_drop_Suc)
    have u: "[i..<GetNE mesh] = i # [Suc i..<GetNE mesh]"
      using True by (simp add: upt_conv_Cons)
    show ?thesis
      apply (subst partition_loop.simps)
      using True il ih t d u by (simp add: SetAttribute_def GetNE_def)
  next
    case False
    with "1.prems" have "i = GetNE mesh" by simp
    then show ?thesis using "1.prems"
      by (subst partition_loop.simps) (simp add: GetNE_def)
  qed
qed

lemma partition_step_result:
  "length subdomain = GetNE mesh \<Longrightarrow>
   partition_step subdomain mesh = Inr (mesh\<lparr>attributes := map (\<lambda>s. s + 1) subdomain\<rparr>, [0..<GetNE mesh])"
  by (simp add: partition_step_def partition_loop_result)

lemma count_list_upt: "i < n \<Longrightarrow> count_list [0..<n] i = 1"
  by (induction n) (auto simp: less_Suc_eq)

lemma set_subdomain_elements_tagged:
  "set (subdomain_elements (mesh\<lparr>attributes := map (\<lambda>s. s + 1) subdomain\<rparr>) s) =
     {i. i < length subdomain \<and> subdomain ! i = s}"
  by (auto simp: subdomain_elements_def GetNE_def GetAttribute_def)

text \<open>
  C2. After the partitioning step every element of the mesh is assigned to exactly one
  subdomain. When \<open>CartesianPartitioning\<close> gives one subdomain id in
  \<open>[0, numSubdomains)\<close> per element, the loop ends normally; \<open>SetAttribute\<close> has
  been called exactly once for each element index in \<open>[0, GetNE())\<close> and for nothing
  else; element \<open>i\<close> lies in the element set of subdomain \<open>subdomain[i]\<close> and of no
  other; the union of the element sets of all subdomains is the full element set; and
  the element sets of two different subdomains do not overlap.
\<close>

theorem partition_covers_elements:
  assumes len: "length subdomain = GetNE mesh"
    and rng: "\<forall>s\<in>set subdomain. 0 \<le> s \<and> s < numSubdomains"
  shows "case partition_step subdomain mesh of
           Inl e \<Rightarrow> False
         | Inr (mesh', calls) \<Rightarrow>
             GetNE mesh' = GetNE mesh
           \<and> set calls = {0..<GetNE mesh}
           \<and> (\<forall>i<GetNE mesh. count_list calls i = 1)
           \<and> (\<forall>i<GetNE mesh. i \<in> set (subdomain_elements mesh' (subdomain ! i)))
           \<and> (\<forall>i<GetNE mesh. \<exists>!s. i \<in> set (subdomain_elements mesh' s))
           \<and> (\<Union>s\<in>{0..<numSubdomains}. set (subdomain_elements mesh' s)) = {0..<GetNE mesh}
           \<and> (\<forall>s t. s \<noteq> t \<longrightarrow>
                 set (subdomain_elements mesh' s) \<inter> set (subdomain_elements mesh' t) = {})"
proof -
  let ?m = "mesh\<lparr>attributes := map (\<lambda>s. s + 1) subdomain\<rparr>"
  let ?n = "GetNE mesh"
  have res: "partition_step subdomain mesh = Inr (?m, [0..<?n])"
    using len by (rule partition_step_result)
  have el: "\<And>s. set (subdomain_elements ?m s) = {i. i < ?n \<and> subdomain ! i = s}"
    using len by (simp add: set_subdomain_elements_tagged)
  have a: "GetNE ?m = ?n" using len by (simp add: GetNE_def)
  have b: "set [0..<?n] = {0..<?n}" by simp
  have c: "\<forall>i<?n. count_list [0..<?n] i = 1" by (simp add: count_list_upt)
  have d: "\<forall>i<?n. i \<in> set (subdomain_elements ?m (subdomain ! i))" by (simp add: el)
  have e: "\<forall>i<?n. \<exists>!s. i \<in> set (subdomain_elements ?m s)" by (simp add: el)
  have f: "(\<Union>s\<in>{0..<numSubdomains}. set (subdomain_elements ?m s)) = {0..<?n}"
  proof
    show "(\<Union>s\<in>{0..<numSubdomains}. set (subdomain_elements ?m s)) \<subseteq> {0..<?n}"
      by (auto simp: el)
    show "{0..<?n} \<subseteq> (\<Union>s\<in>{0..<numSubdomains}. set (subdomain_elements ?m s))"
    proof
      fix i assume "i \<in> {0..<?n}"
      then have i: "i < length subdomain" using len by simp
      then have "subdomain ! i \<in> set subdomain" by simp
      with rng have "subdomain ! i \<in> {0..<numSubdomains}" by simp
      moreover have "i \<in> set (subdomain_elements ?m (subdomain ! i))"
        using i len by (simp add: el)
      ultimately show "i \<in> (\<Union>s\<in>{0..<numSubdomains}. set (subdomain_elements ?m s))"
        by blast
    qed
  qed
  have g: "\<forall>s t. s \<noteq> t \<longrightarrow>
      set (subdomain_elements ?m s) \<inter> set (subdomain_elements ?m t) = {}"
    by (auto simp: el)
  from a b c d e f g show ?thesis
    unfolding res by (simp only: sum.case prod.case simp_thms)
qed

theorem partition_covers_elements_witness:
  "length [0, 1, 1, 0 :: int] = GetNE \<lparr>attributes = [7, 7, 7, 7]\<rparr>
   \<and> partition_step [0, 1, 1, 0] \<lparr>attributes = [7, 7, 7, 7]\<rparr>
       = Inr (\<lparr>attributes = [1, 2, 2, 1]\<rparr>, [0, 1, 2, 3])
   \<and> subdomain_elements \<lparr>attributes = [1, 2, 2, 1]\<rparr> 0 = [0, 3]
   \<and> subdomain_elements \<lparr>attributes = [1, 2, 2, 1]\<rparr> 1 = [1, 2]"
proof -
  have h1: "length [0, 1, 1, 0 :: int] = GetNE \<lparr>attributes = [7, 7, 7, 7]\<rparr>"
    by (simp add: GetNE_def)
  have h2: "\<forall>s\<in>set [0, 1, 1, 0 :: int]. 0 \<le> s \<and> s < 2" by simp
  have r: "partition_step [0, 1, 1, 0] \<lparr>attributes = [7, 7, 7, 7]\<rparr>
       = Inr (\<lparr>attributes = [1, 2, 2, 1]\<rparr>, [0, 1, 2, 3])"
    by code_simp
  have s0: "subdomain_elements \<lparr>attributes = [1, 2, 2, 1]\<rparr> 0 = [0, 3]" by code_simp
  have s1: "subdomain_elements \<lparr>attributes = [1, 2, 2, 1]\<rparr> 1 = [1, 2]" by code_simp
  from partition_covers_elements [OF h1 h2] h1 r s0 s1 show ?thesis by simp
qed

text \<open>
  C9. The partitioning step overwrites the attribute of every element of the serial
  mesh: after it, the attribute of element \<open>i\<close> is \<open>subdomain[i] + 1\<close>, and the
  attributes the mesh carried before are lost, since a mesh with the same number of
  elements and any other attributes gives the same result.
\<close>

theorem partition_overwrites_attributes:
  fixes mesh mesh0 :: Mesh
  assumes len: "length subdomain = GetNE mesh"
    and same: "GetNE mesh0 = GetNE mesh"
  shows "case partition_step subdomain mesh of
           Inl e \<Rightarrow> False
         | Inr (mesh', calls) \<Rightarrow>
             (\<forall>i<GetNE mesh. GetAttribute mesh' i = subdomain ! i + 1)
           \<and> attributes mesh' = map (\<lambda>s. s + 1) subdomain
           \<and> partition_step subdomain mesh0 = Inr (mesh', calls)"
proof -
  have res: "partition_step subdomain mesh = Inr (mesh\<lparr>attributes := map (\<lambda>s. s + 1) subdomain\<rparr>, [0..<GetNE mesh])"
    using len by (rule partition_step_result)
  have res0: "partition_step subdomain mesh0 = Inr (mesh0\<lparr>attributes := map (\<lambda>s. s + 1) subdomain\<rparr>, [0..<GetNE mesh0])"
    using len same by (intro partition_step_result) simp
  have eq: "mesh0\<lparr>attributes := map (\<lambda>s. s + 1) subdomain\<rparr> = mesh\<lparr>attributes := map (\<lambda>s. s + 1) subdomain\<rparr>"
    by simp
  have at: "\<forall>i<GetNE mesh. GetAttribute (mesh\<lparr>attributes := map (\<lambda>s. s + 1) subdomain\<rparr>) i = subdomain ! i + 1"
    using len by (simp add: GetAttribute_def)
  show ?thesis
    unfolding res using at res0 eq same by simp
qed

theorem partition_overwrites_attributes_witness:
  "length [0, 1, 1, 0 :: int] = GetNE \<lparr>attributes = [7, 7, 7, 7]\<rparr>
   \<and> GetNE \<lparr>attributes = [3, 5, 8, 13]\<rparr> = GetNE \<lparr>attributes = [7, 7, 7, 7]\<rparr>
   \<and> partition_step [0, 1, 1, 0] \<lparr>attributes = [7, 7, 7, 7]\<rparr>
       = Inr (\<lparr>attributes = [1, 2, 2, 1]\<rparr>, [0, 1, 2, 3])
   \<and> partition_step [0, 1, 1, 0] \<lparr>attributes = [3, 5, 8, 13]\<rparr>
       = Inr (\<lparr>attributes = [1, 2, 2, 1]\<rparr>, [0, 1, 2, 3])"
proof -
  have h1: "length [0, 1, 1, 0 :: int] = GetNE \<lparr>attributes = [7, 7, 7, 7]\<rparr>"
    by (simp add: GetNE_def)
  have h2: "GetNE \<lparr>attributes = [3, 5, 8, 13]\<rparr> = GetNE \<lparr>attributes = [7, 7, 7, 7]\<rparr>"
    by (simp add: GetNE_def)
  have r: "partition_step [0, 1, 1, 0] \<lparr>attributes = [7, 7, 7, 7]\<rparr>
       = Inr (\<lparr>attributes = [1, 2, 2, 1]\<rparr>, [0, 1, 2, 3])"
    by code_simp
  from partition_overwrites_attributes [OF h1 h2] h1 h2 r show ?thesis by simp
qed

section \<open>Properties of the interface meshes\<close>

lemma run_indices_Inr:
  "run_indices body is = Inr ms \<Longrightarrow>
     length ms = length is \<and> (\<forall>k<length is. body (is ! k) = Inr (ms ! k))"
proof (induction "is" arbitrary: ms)
  case Nil
  then show ?case by simp
next
  case (Cons i rest)
  from Cons.prems obtain m ms' where m: "body i = Inr m"
    and r: "run_indices body rest = Inr ms'" and ms: "ms = m # ms'"
    by (auto split: sum.splits)
  from Cons.IH [OF r] have ih: "length ms' = length rest"
    "\<forall>k<length rest. body (rest ! k) = Inr (ms' ! k)" by simp_all
  show ?case
  proof (intro conjI allI impI)
    show "length ms = length (i # rest)" using ih ms by simp
  next
    fix k assume "k < length (i # rest)"
    then show "body ((i # rest) ! k) = Inr (ms ! k)"
      using m ih ms by (cases k) simp_all
  qed
qed

lemma run_indices_all_Inr:
  "(\<forall>i\<in>set is. \<exists>m. body i = Inr m) \<Longrightarrow> \<exists>ms. run_indices body is = Inr ms"
proof (induction "is")
  case Nil
  then show ?case by simp
next
  case (Cons i rest)
  then obtain m ms where "body i = Inr m" "run_indices body rest = Inr ms" by auto
  then show ?case by simp
qed

lemma run_indices_Inl:
  "run_indices body is = Inl e \<Longrightarrow> \<exists>i\<in>set is. body i = Inl e"
proof (induction "is")
  case Nil
  then show ?case by simp
next
  case (Cons i rest)
  then show ?case by (auto split: sum.splits)
qed

lemma CreateInterfaceMeshes_Inr:
  assumes "CreateInterfaceMeshes create n numInterfaces interfaces g2l gi = Inr ms"
  shows "length ms = nat numInterfaces"
    and "\<forall>i<nat numInterfaces. interface_mesh_at create n interfaces g2l gi i = Inr (ms ! i)"
  using run_indices_Inr [OF assms [unfolded CreateInterfaceMeshes_def]] by simp_all

lemma emptyInterface_fields:
  "sd0 (emptyInterface n g) = decode_sd0 n g"
  "sd1 (emptyInterface n g) = decode_sd1 n g"
  "faces (emptyInterface n g) = []"
  "vertices (emptyInterface n g) = []"
  "GetGlobalIndex (emptyInterface n g) = encodeGlobalIndex n (decode_sd0 n g) (decode_sd1 n g)"
  by (simp_all add: emptyInterface_def SetGlobalIndex_def new_SubdomainInterface_def GetGlobalIndex_def)

lemma emptyInterface_GetGlobalIndex: "GetGlobalIndex (emptyInterface n g) = g"
  by (simp add: emptyInterface_fields encodeGlobalIndex_def decode_sd1_def)

text \<open>
  What the loop body hands to the mesh builder where the map entry is negative: for
  any builder \<open>create\<close>, the result is \<open>create\<close> applied to the interface object
  decoded from the stored global index.
\<close>

lemma interface_mesh_at_negative:
  assumes "i < length interfaceGlobalToLocalMap" and "i < length interfaceGI"
    and "interfaceGlobalToLocalMap ! i < 0" and "numSubdomains \<noteq> 0"
  shows "interface_mesh_at create numSubdomains interfaces interfaceGlobalToLocalMap interfaceGI i
           = Inr (create (emptyInterface numSubdomains (interfaceGI ! i)))"
  using assms by (simp add: interface_mesh_at_def Let_def)

lemma emptyInterface_encode:
  assumes "0 \<le> s0" and "0 \<le> s1" and "s1 < n"
  shows "emptyInterface n (encodeGlobalIndex n s0 s1)
           = \<lparr>sd0 = s0, sd1 = s1, globalIndex = encodeGlobalIndex n s0 s1,
               faces = [], vertices = []\<rparr>"
  using decode_sd0_encode [OF assms] decode_sd1_encode [OF assms]
  by (simp add: emptyInterface_def SetGlobalIndex_def new_SubdomainInterface_def)

text \<open>
  C5. Where the process holds no piece of an interface (the entry of
  \<open>interfaceGlobalToLocalMap\<close> is negative) and the stored global index encodes the
  subdomain pair \<open>(sd0, sd1)\<close> with \<open>0 \<le> sd0 < sd1 < numSubdomains\<close>, the loop body
  does not fail: the object it builds and hands to the mesh builder, whatever the
  builder, is the empty interface decoded from the stored index, which carries exactly
  that pair and that global index and has no face and no vertex; and the interface
  mesh built from it is a mesh object (not \<open>NULL\<close>) with zero faces, which is the
  entry of \<open>pmeshInterfaces\<close> at that index when the loop ends normally.
\<close>

theorem empty_interface_mesh:
  assumes lenM: "i < length interfaceGlobalToLocalMap"
    and lenG: "i < length interfaceGI"
    and neg: "interfaceGlobalToLocalMap ! i < 0"
    and gi: "interfaceGI ! i = encodeGlobalIndex numSubdomains s0 s1"
    and pair: "0 \<le> s0" "s0 < s1" "s1 < numSubdomains"
  shows "sd0 (emptyInterface numSubdomains (interfaceGI ! i)) = s0
       \<and> sd1 (emptyInterface numSubdomains (interfaceGI ! i)) = s1
       \<and> GetGlobalIndex (emptyInterface numSubdomains (interfaceGI ! i)) = interfaceGI ! i
       \<and> faces (emptyInterface numSubdomains (interfaceGI ! i)) = []
       \<and> interface_mesh_at CreateParallelInterfaceMesh numSubdomains interfaces
             interfaceGlobalToLocalMap interfaceGI i
           = Inr (Some \<lparr>local_elements = []\<rparr>)
       \<and> ParMesh_GetNE \<lparr>local_elements = []\<rparr> = 0
       \<and> (\<forall>pmeshInterfaces.
             CreateInterfaceMeshes CreateParallelInterfaceMesh numSubdomains numInterfaces
               interfaces interfaceGlobalToLocalMap interfaceGI = Inr pmeshInterfaces
             \<and> i < nat numInterfaces
             \<longrightarrow> pmeshInterfaces ! i = Some \<lparr>local_elements = []\<rparr>)
       \<and> interface_mesh_at create numSubdomains interfaces
             interfaceGlobalToLocalMap interfaceGI i
           = Inr (create (emptyInterface numSubdomains (interfaceGI ! i)))
       \<and> interface_mesh_at (\<lambda>ifc. ifc) numSubdomains interfaces
             interfaceGlobalToLocalMap interfaceGI i
           = Inr \<lparr>sd0 = s0, sd1 = s1, globalIndex = interfaceGI ! i,
                   faces = [], vertices = []\<rparr>
       \<and> (\<forall>built.
             CreateInterfaceMeshes create numSubdomains numInterfaces
               interfaces interfaceGlobalToLocalMap interfaceGI = Inr built
             \<and> i < nat numInterfaces
             \<longrightarrow> built ! i = create \<lparr>sd0 = s0, sd1 = s1, globalIndex = interfaceGI ! i,
                                       faces = [], vertices = []\<rparr>)"
proof -
  let ?e = "emptyInterface numSubdomains (interfaceGI ! i)"
  let ?at = "interface_mesh_at CreateParallelInterfaceMesh numSubdomains interfaces
               interfaceGlobalToLocalMap interfaceGI"
  from pair have n0: "numSubdomains \<noteq> 0" and s1: "0 \<le> s1" by simp_all
  have a: "sd0 ?e = s0"
    using pair s1 by (simp add: emptyInterface_fields gi decode_sd0_encode)
  have b: "sd1 ?e = s1"
    using pair s1 by (simp add: emptyInterface_fields gi decode_sd1_encode)
  have c: "GetGlobalIndex ?e = interfaceGI ! i" by (rule emptyInterface_GetGlobalIndex)
  have d: "faces ?e = []" by (simp add: emptyInterface_fields)
  have e: "?at i = Inr (Some \<lparr>local_elements = []\<rparr>)"
    using lenM lenG neg n0 d
    by (simp add: interface_mesh_at_def Let_def CreateParallelInterfaceMesh_def)
  have f: "ParMesh_GetNE \<lparr>local_elements = []\<rparr> = 0" by (simp add: ParMesh_GetNE_def)
  have g: "pmeshInterfaces ! i = Some \<lparr>local_elements = []\<rparr>"
    if run: "CreateInterfaceMeshes CreateParallelInterfaceMesh numSubdomains numInterfaces
               interfaces interfaceGlobalToLocalMap interfaceGI = Inr pmeshInterfaces"
      and i: "i < nat numInterfaces" for pmeshInterfaces
  proof -
    from CreateInterfaceMeshes_Inr(2) [OF run] i have "?at i = Inr (pmeshInterfaces ! i)"
      by simp
    with e show ?thesis by simp
  qed
  have obj: "?e = \<lparr>sd0 = s0, sd1 = s1, globalIndex = interfaceGI ! i,
                    faces = [], vertices = []\<rparr>"
    using emptyInterface_encode [OF pair(1) s1 pair(3)] by (simp add: gi)
  have h: "interface_mesh_at create numSubdomains interfaces
             interfaceGlobalToLocalMap interfaceGI i = Inr (create ?e)"
    using lenM lenG neg n0 by (rule interface_mesh_at_negative)
  have k: "interface_mesh_at (\<lambda>ifc. ifc) numSubdomains interfaces
             interfaceGlobalToLocalMap interfaceGI i
           = Inr \<lparr>sd0 = s0, sd1 = s1, globalIndex = interfaceGI ! i,
                   faces = [], vertices = []\<rparr>"
    using interface_mesh_at_negative [OF lenM lenG neg n0, of "\<lambda>ifc. ifc" interfaces] obj
    by simp
  have l: "built ! i = create \<lparr>sd0 = s0, sd1 = s1, globalIndex = interfaceGI ! i,
                                 faces = [], vertices = []\<rparr>"
    if run: "CreateInterfaceMeshes create numSubdomains numInterfaces
               interfaces interfaceGlobalToLocalMap interfaceGI = Inr built"
      and i: "i < nat numInterfaces" for built
  proof -
    from CreateInterfaceMeshes_Inr(2) [OF run] i
    have "interface_mesh_at create numSubdomains interfaces
            interfaceGlobalToLocalMap interfaceGI i = Inr (built ! i)"
      by simp
    with h obj show ?thesis by simp
  qed
  from a b c d e f g h k l show ?thesis by blast
qed

theorem empty_interface_mesh_witness:
  "(1::nat) < length [0, - 1 :: int] \<and> (1::nat) < length [1, 5 :: int]
   \<and> [0, - 1 :: int] ! 1 < 0 \<and> [1, 5 :: int] ! 1 = encodeGlobalIndex 3 1 2
   \<and> sd0 (emptyInterface 3 5) = 1 \<and> sd1 (emptyInterface 3 5) = 2
   \<and> GetGlobalIndex (emptyInterface 3 5) = 5
   \<and> interface_mesh_at CreateParallelInterfaceMesh 3 [] [0, - 1] [1, 5] 1
       = Inr (Some \<lparr>local_elements = []\<rparr>)
   \<and> interface_mesh_at (\<lambda>ifc. ifc) 3 [] [0, - 1] [1, 5] 1
       = Inr \<lparr>sd0 = 1, sd1 = 2, globalIndex = 5, faces = [], vertices = []\<rparr>"
proof -
  have h1: "(1::nat) < length [0, - 1 :: int]" by simp
  have h2: "(1::nat) < length [1, 5 :: int]" by simp
  have h3: "[0, - 1 :: int] ! 1 < 0" by simp
  have h4: "[1, 5 :: int] ! 1 = encodeGlobalIndex 3 1 2" by (simp add: encodeGlobalIndex_def)
  have h5: "(0::int) \<le> 1" "(1::int) < 2" "(2::int) < 3" by simp_all
  have n: "[1, 5 :: int] ! 1 = 5" by simp
  note t = empty_interface_mesh
         [where interfaces = "[]" and numInterfaces = 2 and create = "\<lambda>ifc. ifc",
          OF h1 h2 h3 h4 h5, unfolded n]
  from t h1 h2 h3 h4 show ?thesis by blast
qed

text \<open>
  C6. When the loop over the global interface indices ends normally, the agreed index
  \<open>interfaceGI[i]\<close> equals \<open>GetGlobalIndex()\<close> of the local interface object at every
  index that is realized locally (non-negative entry of \<open>interfaceGlobalToLocalMap\<close>).
  With arrays that cover the indices and local indices inside \<open>interfaces\<close>, the loop
  ends normally exactly when that equality holds at every realized index, and it
  aborts through \<open>MFEM_VERIFY\<close> exactly when some realized index breaks it.
\<close>

theorem verify_global_index:
  assumes lenM: "nat numInterfaces \<le> length interfaceGlobalToLocalMap"
    and lenG: "nat numInterfaces \<le> length interfaceGI"
    and loc: "\<forall>i<nat numInterfaces. interfaceGlobalToLocalMap ! i < int (length interfaces)"
    and n0: "numSubdomains \<noteq> 0"
  shows "((\<exists>pmeshInterfaces.
            CreateInterfaceMeshes create numSubdomains numInterfaces interfaces
              interfaceGlobalToLocalMap interfaceGI = Inr pmeshInterfaces)
          \<longleftrightarrow> (\<forall>i<nat numInterfaces. 0 \<le> interfaceGlobalToLocalMap ! i \<longrightarrow>
                 interfaceGI ! i
                   = GetGlobalIndex (interfaces ! nat (interfaceGlobalToLocalMap ! i))))
       \<and> (CreateInterfaceMeshes create numSubdomains numInterfaces interfaces
              interfaceGlobalToLocalMap interfaceGI = Inl VerifyFailed
          \<longleftrightarrow> (\<exists>i<nat numInterfaces. 0 \<le> interfaceGlobalToLocalMap ! i \<and>
                 interfaceGI ! i
                   \<noteq> GetGlobalIndex (interfaces ! nat (interfaceGlobalToLocalMap ! i))))"
proof -
  let ?body = "interface_mesh_at create numSubdomains interfaces
                 interfaceGlobalToLocalMap interfaceGI"
  let ?run = "CreateInterfaceMeshes create numSubdomains numInterfaces interfaces
                interfaceGlobalToLocalMap interfaceGI"
  let ?ok = "\<lambda>i. 0 \<le> interfaceGlobalToLocalMap ! i \<longrightarrow>
               interfaceGI ! i = GetGlobalIndex (interfaces ! nat (interfaceGlobalToLocalMap ! i))"
  have run: "?run = run_indices ?body [0..<nat numInterfaces]"
    by (simp add: CreateInterfaceMeshes_def)
  have good: "\<exists>m. ?body i = Inr m" if "i < nat numInterfaces" "?ok i" for i
    using that lenM lenG loc n0 by (auto simp: interface_mesh_at_def Let_def)
  have bad: "?body i = Inl VerifyFailed" if "i < nat numInterfaces" "\<not> ?ok i" for i
    using that lenM lenG loc n0 by (auto simp: interface_mesh_at_def Let_def)
  have all_ok: "\<forall>i<nat numInterfaces. ?ok i" if "?run = Inr ms" for ms
  proof (intro allI impI)
    fix i assume i: "i < nat numInterfaces"
      and r: "0 \<le> interfaceGlobalToLocalMap ! i"
    from CreateInterfaceMeshes_Inr(2) [OF that] i have "?body i = Inr (ms ! i)" by simp
    with bad [OF i] r
    show "interfaceGI ! i = GetGlobalIndex (interfaces ! nat (interfaceGlobalToLocalMap ! i))"
      by auto
  qed
  have ok_runs: "\<exists>ms. ?run = Inr ms" if "\<forall>i<nat numInterfaces. ?ok i"
    unfolding run using that good by (intro run_indices_all_Inr) simp
  have first: "(\<exists>ms. ?run = Inr ms) \<longleftrightarrow> (\<forall>i<nat numInterfaces. ?ok i)"
    using all_ok ok_runs by blast
  have fails: "?run = Inl VerifyFailed" if "\<exists>i<nat numInterfaces. \<not> ?ok i"
  proof (cases ?run)
    case (Inl e)
    from run_indices_Inl [OF Inl [unfolded run]]
    obtain i where i: "i < nat numInterfaces" and e: "?body i = Inl e" by auto
    from good [OF i] bad [OF i] e have "e = VerifyFailed" by (cases "?ok i") auto
    with Inl show ?thesis by simp
  next
    case (Inr ms)
    with all_ok that show ?thesis by blast
  qed
  have second: "?run = Inl VerifyFailed \<longleftrightarrow> (\<exists>i<nat numInterfaces. \<not> ?ok i)"
    using fails first by auto
  from first second show ?thesis by simp
qed

theorem verify_global_index_witness:
  "nat 2 \<le> length [0, - 1 :: int] \<and> nat 2 \<le> length [2, 5 :: int] \<and> (3::int) \<noteq> 0
   \<and> CreateInterfaceMeshes CreateParallelInterfaceMesh 3 2
         [\<lparr>sd0 = 0, sd1 = 1, globalIndex = 1, faces = [4, 9], vertices = []\<rparr>]
         [0, - 1] [2, 5]
       = Inl VerifyFailed"
proof -
  let ?ifs = "[\<lparr>sd0 = 0, sd1 = 1, globalIndex = 1, faces = [4, 9], vertices = []\<rparr>]"
  have h1: "nat 2 \<le> length [0, - 1 :: int]" by simp
  have h2: "nat 2 \<le> length [2, 5 :: int]" by simp
  have h3: "\<forall>i<nat 2. [0, - 1 :: int] ! i < int (length ?ifs)"
    by (auto simp: less_2_cases_iff)
  have h4: "(3::int) \<noteq> 0" by simp
  have "(0::nat) < nat 2 \<and> 0 \<le> [0, - 1 :: int] ! 0
          \<and> [2, 5 :: int] ! 0 \<noteq> GetGlobalIndex (?ifs ! nat ([0, - 1 :: int] ! 0))"
    by (simp add: GetGlobalIndex_def)
  then have bad: "\<exists>i<nat 2. 0 \<le> [0, - 1 :: int] ! i
          \<and> [2, 5 :: int] ! i \<noteq> GetGlobalIndex (?ifs ! nat ([0, - 1 :: int] ! i))"
    by blast
  from verify_global_index [OF h1 h2 h3 h4, of CreateParallelInterfaceMesh] bad
  have "CreateInterfaceMeshes CreateParallelInterfaceMesh 3 2 ?ifs [0, - 1] [2, 5]
          = Inl VerifyFailed"
    by blast
  with h1 h2 h4 show ?thesis by blast
qed

section \<open>Properties of the subdomain meshes\<close>

text \<open>
  C8. \<open>CreateParallelSubdomainMeshes\<close> returns an array (not \<open>NULL\<close>) with one mesh
  object (not \<open>NULL\<close>) for every subdomain id; the mesh of subdomain \<open>s\<close> holds
  exactly the local elements tagged with \<open>s\<close>, and is a zero-size mesh when the
  process owns no element of \<open>s\<close>. So the driver's branch
  \<open>if (pmeshSD == NULL) return 2;\<close> is never taken.
\<close>

theorem subdomain_meshes_not_null:
  "create_subdomain_meshes_step numSubdomains pmesh \<noteq> Inl (Exit 2)
   \<and> (\<exists>pmeshSD.
        CreateParallelSubdomainMeshes numSubdomains pmesh = Some pmeshSD
      \<and> create_subdomain_meshes_step numSubdomains pmesh = Inr pmeshSD
      \<and> length pmeshSD = nat numSubdomains
      \<and> (\<forall>s<nat numSubdomains. \<exists>pm.
            pmeshSD ! s = Some pm
          \<and> local_elements pm = map int (subdomain_elements pmesh (int s))
          \<and> (subdomain_elements pmesh (int s) = [] \<longrightarrow> ParMesh_GetNE pm = 0)))"
proof -
  let ?sd = "map (\<lambda>s. Some \<lparr>local_elements = map int (subdomain_elements pmesh (int s))\<rparr>)
               [0..<nat numSubdomains]"
  have a: "CreateParallelSubdomainMeshes numSubdomains pmesh = Some ?sd"
    by (simp add: CreateParallelSubdomainMeshes_def)
  then have b: "create_subdomain_meshes_step numSubdomains pmesh = Inr ?sd"
    by (simp add: create_subdomain_meshes_step_def)
  have c: "length ?sd = nat numSubdomains" by simp
  have d: "\<exists>pm. ?sd ! s = Some pm
          \<and> local_elements pm = map int (subdomain_elements pmesh (int s))
          \<and> (subdomain_elements pmesh (int s) = [] \<longrightarrow> ParMesh_GetNE pm = 0)"
    if "s < nat numSubdomains" for s
    using that by (simp add: ParMesh_GetNE_def)
  from b have e: "create_subdomain_meshes_step numSubdomains pmesh \<noteq> Inl (Exit 2)" by simp
  from a b c d e show ?thesis by blast
qed

theorem subdomain_meshes_not_null_witness:
  "create_subdomain_meshes_step 2 \<lparr>attributes = [1, 1, 1]\<rparr> \<noteq> Inl (Exit 2)
   \<and> create_subdomain_meshes_step 2 \<lparr>attributes = [1, 1, 1]\<rparr>
       = Inr [Some \<lparr>local_elements = [0, 1, 2]\<rparr>, Some \<lparr>local_elements = []\<rparr>]
   \<and> subdomain_elements \<lparr>attributes = [1, 1, 1]\<rparr> (int 1) = []"
proof -
  have r: "create_subdomain_meshes_step 2 \<lparr>attributes = [1, 1, 1]\<rparr>
       = Inr [Some \<lparr>local_elements = [0, 1, 2]\<rparr>, Some \<lparr>local_elements = []\<rparr>]"
    by code_simp
  have e: "subdomain_elements \<lparr>attributes = [1, 1, 1]\<rparr> (int 1) = []" by code_simp
  from subdomain_meshes_not_null [of 2 "\<lparr>attributes = [1, 1, 1]\<rparr>"] r e
  show ?thesis by simp
qed

section \<open>Properties of the interface solve\<close>

text \<open>
  C7. When the outer GMRES iteration does not converge, the run does not abort: the
  block ends normally, and the vector it leaves in \<open>X\<close> is what
  \<open>RecoverDomainSolution\<close> makes of the approximate interface solution that the
  solver returned. The solver's convergence flag and iteration count are never read:
  a solver that differs only in them gives the same result.
\<close>

theorem nonconvergence_still_recovers:
  assumes "\<not> converged (gmres (Mult ddi) (1 / 10 ^ 8) 100 100
                          (GetReducedSource ddi B (replicate (length B) 0))
                          (replicate (Width ddi) 0))"
  shows "solveDD gmres ddi B X
           = Inr (RecoverDomainSolution ddi
                    (solution (gmres (Mult ddi) (1 / 10 ^ 8) 100 100
                                 (GetReducedSource ddi B (replicate (length B) 0))
                                 (replicate (Width ddi) 0)))
                    X (replicate (length X) 0))
       \<and> solveDD (\<lambda>A tol maxit kdim b x. (gmres A tol maxit kdim b x)\<lparr>converged := c, iterations := k\<rparr>)
           ddi B X
           = solveDD gmres ddi B X"
  by (simp add: solveDD_def Let_def)

theorem nonconvergence_still_recovers_witness:
  "\<not> converged ((\<lambda>A tol maxit kdim b x. \<lparr>solution = map (\<lambda>v. v + 1) x, converged = False, iterations = maxit\<rparr>)
        (Mult \<lparr>Width = 2, Mult = id, GetReducedSource = (\<lambda>b bi. [1, 1]),
                RecoverDomainSolution = (\<lambda>xdd Xfem X. xdd @ Xfem @ X)\<rparr>)
        (1 / 10 ^ 8) 100 100
        (GetReducedSource \<lparr>Width = 2, Mult = id, GetReducedSource = (\<lambda>b bi. [1, 1]),
                RecoverDomainSolution = (\<lambda>xdd Xfem X. xdd @ Xfem @ X)\<rparr> [3] (replicate (length [3::real]) 0))
        (replicate (Width \<lparr>Width = 2, Mult = id, GetReducedSource = (\<lambda>b bi. [1, 1]),
                RecoverDomainSolution = (\<lambda>xdd Xfem X. xdd @ Xfem @ X)\<rparr>) 0))
   \<and> solveDD (\<lambda>A tol maxit kdim b x. \<lparr>solution = map (\<lambda>v. v + 1) x, converged = False, iterations = maxit\<rparr>)
        \<lparr>Width = 2, Mult = id, GetReducedSource = (\<lambda>b bi. [1, 1]),
         RecoverDomainSolution = (\<lambda>xdd Xfem X. xdd @ Xfem @ X)\<rparr> [3] [7]
       = Inr [1, 1, 7, 0]"
proof -
  let ?gm = "\<lambda>(A :: Vector \<Rightarrow> Vector) (tol :: real) (maxit :: nat) (kdim :: nat) (b :: Vector) (x :: Vector).
               \<lparr>solution = map (\<lambda>v. v + 1) x, converged = False, iterations = maxit\<rparr>"
  let ?ddi = "\<lparr>Width = 2, Mult = id, GetReducedSource = (\<lambda>b bi. [1, 1]),
               RecoverDomainSolution = (\<lambda>xdd Xfem X. xdd @ Xfem @ X)\<rparr>"
  have h: "\<not> converged (?gm (Mult ?ddi) (1 / 10 ^ 8) 100 100
                          (GetReducedSource ?ddi [3] (replicate (length [3::real]) 0))
                          (replicate (Width ?ddi) 0))"
    by simp
  from nonconvergence_still_recovers [of ?gm ?ddi "[3]", OF h, of "[7]"] h
  show ?thesis by (simp add: numeral_2_eq_2)
qed

section \<open>Properties of the element markers\<close>

lemma count_loop_eq: "count_loop vals c = c + int (length (filter le_zero vals))"
  by (induction vals arbitrary: c) simp_all

lemma length_filter_eq_length: "length (filter P xs) = length xs \<longleftrightarrow> (\<forall>x\<in>set xs. P x)"
proof (induction xs)
  case Nil
  then show ?case by simp
next
  case (Cons x xs)
  have "length (filter P xs) \<noteq> Suc (length xs)"
    using length_filter_le [of P xs] by linarith
  with Cons show ?case by auto
qed

lemma count_loop_all: "count_loop vals 0 = int (length vals) \<longleftrightarrow> list_all le_zero vals"
  by (simp add: count_loop_eq list_all_iff length_filter_eq_length)

lemma count_loop_some: "0 < count_loop vals 0 \<longleftrightarrow> list_ex le_zero vals"
  by (simp add: count_loop_eq list_ex_iff filter_empty_conv)

text \<open>One pass of the loop body writes the classification of element \<open>i\<close> at index \<open>i\<close>,
  or leaves the entry as it was when no value is \<open><= 0\<close>.\<close>

lemma mark_element_marker:
  "fst (mark_element trimin GetValues i st) =
     (if list_all le_zero (GetValues i) then (fst st)[i := 1]
      else if list_ex le_zero (GetValues i) then (fst st)[i := 2]
      else fst st)"
  by (simp add: mark_element_def Let_def count_loop_all count_loop_some)

lemma mark_element_GetNE: "GetNE (snd (mark_element trimin GetValues i st)) = GetNE (snd st)"
  by (simp add: mark_element_def Let_def GetNE_def SetAttribute_def)

lemma mark_element_length: "length (fst (mark_element trimin GetValues i st)) = length (fst st)"
  by (simp add: mark_element_marker)

lemma mark_element_nth:
  assumes "k < length (fst st)"
  shows "fst (mark_element trimin GetValues i st) ! k =
     (if k = i \<and> list_ex le_zero (GetValues i) then marker_spec (GetValues i)
      else if k = i \<and> GetValues i = [] then 1
      else fst st ! k)"
  using assms by (auto simp: mark_element_marker marker_spec_def list_ex_iff list_all_iff)

lemma marker_loop_nth:
  assumes "k < length (fst st)" and "\<forall>j. i \<le> j \<and> j < GetNE (snd st) \<longrightarrow> fst st ! j = 0"
    and "GetNE (snd st) \<le> length (fst st)"
  shows "length (fst (marker_loop trimin GetValues i st)) = length (fst st)
       \<and> fst (marker_loop trimin GetValues i st) ! k =
           (if i \<le> k \<and> k < GetNE (snd st) then marker_spec (GetValues k) else fst st ! k)"
  using assms
proof (induction trimin GetValues i st rule: marker_loop.induct)
  case (1 trimin GetValues i st)
  show ?case
  proof (cases "i < GetNE (snd st)")
    case False
    then show ?thesis by (subst (1 2) marker_loop.simps) simp
  next
    case True
    let ?st = "mark_element trimin GetValues i st"
    have ne: "GetNE (snd ?st) = GetNE (snd st)" by (rule mark_element_GetNE)
    have len: "length (fst ?st) = length (fst st)" by (rule mark_element_length)
    have zero: "\<forall>j. Suc i \<le> j \<and> j < GetNE (snd ?st) \<longrightarrow> fst ?st ! j = 0"
      using "1.prems" ne by (auto simp: mark_element_nth)
    have ih: "length (fst (marker_loop trimin GetValues (Suc i) ?st)) = length (fst ?st)
       \<and> fst (marker_loop trimin GetValues (Suc i) ?st) ! k =
           (if Suc i \<le> k \<and> k < GetNE (snd ?st) then marker_spec (GetValues k) else fst ?st ! k)"
      using True "1.prems" ne len zero by (intro "1.IH") simp_all
    have step: "marker_loop trimin GetValues i st = marker_loop trimin GetValues (Suc i) ?st"
      using True by (subst marker_loop.simps) simp
    have here: "fst ?st ! i = marker_spec (GetValues i)"
    proof -
      from True "1.prems" have il: "i < length (fst st)" and z: "fst st ! i = 0" by simp_all
      show ?thesis
        using il z by (auto simp: mark_element_nth marker_spec_def list_ex_iff list_all_iff)
    qed
    have other: "fst ?st ! k = fst st ! k" if "k \<noteq> i"
      using that "1.prems" by (simp add: mark_element_nth)
    show ?thesis
    proof (cases "k = i")
      case True
      with ih here len ne show ?thesis unfolding step using \<open>i < GetNE (snd st)\<close> by simp
    next
      case False
      with ih other len ne show ?thesis unfolding step by auto
    qed
  qed
qed

lemma marker_spec_range: "marker_spec vals \<in> {0, 1, 2}"
  by (simp add: marker_spec_def)

text \<open>
  C10. The classification of the local elements is a total trichotomy: after the loop,
  for every local element \<open>i\<close> the entry \<open>elem_marker[i]\<close> is one of \<open>0\<close>, \<open>1\<close>, \<open>2\<close>;
  it is \<open>1\<close> exactly when the level-set value at every quadrature point of the
  element is \<open><= 0\<close>, \<open>2\<close> exactly when the value at some point but not at every
  point is \<open><= 0\<close>, and \<open>0\<close> in every other case.
\<close>

theorem elem_marker_trichotomy:
  assumes "i < GetNE pmesh"
  shows "fst (mark_local_elements trimin GetValues GetNSharedFaces pmesh) ! i
           = marker_spec (GetValues i)
       \<and> fst (mark_local_elements trimin GetValues GetNSharedFaces pmesh) ! i \<in> {0, 1, 2}
       \<and> (fst (mark_local_elements trimin GetValues GetNSharedFaces pmesh) ! i = 1
            \<longleftrightarrow> (\<forall>v\<in>set (GetValues i). le_zero v))
       \<and> (fst (mark_local_elements trimin GetValues GetNSharedFaces pmesh) ! i = 2
            \<longleftrightarrow> (\<exists>v\<in>set (GetValues i). le_zero v) \<and> \<not> (\<forall>v\<in>set (GetValues i). le_zero v))
       \<and> (fst (mark_local_elements trimin GetValues GetNSharedFaces pmesh) ! i = 0
            \<longleftrightarrow> \<not> (\<forall>v\<in>set (GetValues i). le_zero v)
               \<and> \<not> ((\<exists>v\<in>set (GetValues i). le_zero v) \<and> \<not> (\<forall>v\<in>set (GetValues i). le_zero v)))"
proof -
  let ?st = "(replicate (GetNE pmesh + GetNSharedFaces) (0::int), pmesh)"
  have "fst (marker_loop trimin GetValues 0 ?st) ! i =
          (if 0 \<le> i \<and> i < GetNE (snd ?st) then marker_spec (GetValues i) else fst ?st ! i)"
    using assms by (intro marker_loop_nth [THEN conjunct2]) simp_all
  with assms
  have m: "fst (mark_local_elements trimin GetValues GetNSharedFaces pmesh) ! i
             = marker_spec (GetValues i)"
    by (simp add: mark_local_elements_def)
  have r: "marker_spec (GetValues i) \<in> {0, 1, 2}" by (rule marker_spec_range)
  have one: "marker_spec (GetValues i) = 1 \<longleftrightarrow> (\<forall>v\<in>set (GetValues i). le_zero v)"
    by (simp add: marker_spec_def list_all_iff)
  have two: "marker_spec (GetValues i) = 2
      \<longleftrightarrow> (\<exists>v\<in>set (GetValues i). le_zero v) \<and> \<not> (\<forall>v\<in>set (GetValues i). le_zero v)"
    by (simp add: marker_spec_def list_all_iff list_ex_iff)
  have zero: "marker_spec (GetValues i) = 0
      \<longleftrightarrow> \<not> (\<forall>v\<in>set (GetValues i). le_zero v)
         \<and> \<not> ((\<exists>v\<in>set (GetValues i). le_zero v) \<and> \<not> (\<forall>v\<in>set (GetValues i). le_zero v))"
    by (simp add: marker_spec_def list_all_iff list_ex_iff)
  show ?thesis unfolding m by (intro conjI refl r one two zero)
qed

theorem elem_marker_trichotomy_witness:
  "(1::nat) < GetNE \<lparr>attributes = [5, 5, 5]\<rparr>
   \<and> fst (mark_local_elements True
            (\<lambda>i. if i = 0 then [Finite (- 1), NegInf]
                 else if i = 1 then [Finite 1, Finite (- 2), NaN]
                 else [Finite 1, PosInf])
            1 \<lparr>attributes = [5, 5, 5]\<rparr>) ! 1 = 2
   \<and> mark_local_elements True
            (\<lambda>i. if i = 0 then [Finite (- 1), NegInf]
                 else if i = 1 then [Finite 1, Finite (- 2), NaN]
                 else [Finite 1, PosInf])
            1 \<lparr>attributes = [5, 5, 5]\<rparr>
       = ([1, 2, 0, 0], \<lparr>attributes = [2, 2, 1]\<rparr>)"
proof -
  let ?gv = "\<lambda>i::nat. if i = 0 then [Finite (- 1), NegInf]
                    else if i = 1 then [Finite 1, Finite (- 2), NaN]
                    else [Finite 1, PosInf]"
  have h: "(1::nat) < GetNE \<lparr>attributes = [5, 5, 5]\<rparr>" by (simp add: GetNE_def)
  have s: "marker_spec (?gv 1) = 2" by (simp add: marker_spec_def)
  have r: "mark_local_elements True ?gv 1 \<lparr>attributes = [5, 5, 5]\<rparr>
             = ([1, 2, 0, 0], \<lparr>attributes = [2, 2, 1]\<rparr>)"
    by code_simp
  from elem_marker_trichotomy [OF h, of True ?gv 1] have
    "fst (mark_local_elements True ?gv 1 \<lparr>attributes = [5, 5, 5]\<rparr>) ! 1 = marker_spec (?gv 1)"
    by blast
  with h s r show ?thesis by simp
qed

end
